theory Spec2Isabelle
  imports Complex_Main
begin

section \<open>Errors\<close>

text \<open>A Go panic aborts the whole formatting call; it is the only error the formatting
  rules themselves raise. A function that can panic returns \<open>error + 'a\<close>.\<close>

datatype error = Panic string

section \<open>The line table (go/token's File)\<close>

text \<open>Modelled from the spec: the Line Table is go/token's \<open>File\<close> (here \<open>TokenFile\<close>), which is not among the
  repository's sources. It holds the base position of the file, its size in bytes and the
  ordered line-start offsets. A position is an integer \<open>base + offset\<close>; \<open>NoPos\<close> is 0.\<close>

record TokenFile =
  base :: int
  fsize :: int
  lines :: "int list"

definition NoPos :: int where
  "NoPos = 0"

definition IsValid :: "int \<Rightarrow> bool" where
  "IsValid p = (p \<noteq> NoPos)"

text \<open>Modelled from the spec: the offset of a position. Positions outside the file are
  clamped into \<open>0 .. size\<close> (earlier releases of go/token panic there instead); every
  theorem below that depends on it assumes positions inside the file.\<close>

definition Offset :: "TokenFile \<Rightarrow> int \<Rightarrow> int" where
  "Offset F p = (if p - base F < 0 then 0 else if p - base F > fsize F then fsize F else p - base F)"

text \<open>Modelled from the spec: \<open>lineOf(pos)\<close>. The line of an offset is the number of line
  starts at or before it, which on a strictly increasing table is the index found by
  go/token's binary search plus one. \<open>NoPos\<close> has line 0.\<close>

definition lineOfOffset :: "int list \<Rightarrow> int \<Rightarrow> int" where
  "lineOfOffset ls off = int (length (filter (\<lambda>s. s \<le> off) ls))"

definition Line :: "TokenFile \<Rightarrow> int \<Rightarrow> int" where
  "Line F p = (if p = NoPos then 0 else lineOfOffset (lines F) (Offset F p))"

text \<open>Modelled from the spec: the column of a position is its distance from the start of
  its line, counted from 1 (0 when the position has no line).\<close>

definition Column :: "TokenFile \<Rightarrow> int \<Rightarrow> int" where
  "Column F p =
     (if p = NoPos \<or> Line F p < 1 then 0
      else Offset F p - lines F ! nat (Line F p - 1) + 1)"

definition LineCount :: "TokenFile \<Rightarrow> int" where
  "LineCount F = int (length (lines F))"

text \<open>Modelled from the spec: \<open>LineStart\<close> panics on a line number outside \<open>1 .. LineCount\<close>.\<close>

definition LineStart :: "TokenFile \<Rightarrow> int \<Rightarrow> error + int" where
  "LineStart F line =
     (if line < 1 then Inl (Panic ''invalid line number (should be >= 1)'')
      else if line > LineCount F then Inl (Panic ''invalid line number (should be <= line count)'')
      else Inr (base F + lines F ! nat (line - 1)))"

text \<open>Modelled from the spec: \<open>mergeLines(line)\<close> removes the break that ends \<open>line\<close>, that
  is the table entry of index \<open>line\<close>, and fails fatally on the last line.\<close>

definition MergeLine :: "TokenFile \<Rightarrow> int \<Rightarrow> error + TokenFile" where
  "MergeLine F line =
     (if line < 1 then Inl (Panic ''invalid line number (should be >= 1)'')
      else if line \<ge> LineCount F then Inl (Panic ''invalid line number (should be < line count)'')
      else Inr (F\<lparr>lines := take (nat line) (lines F) @ drop (nat line + 1) (lines F)\<rparr>))"

text \<open>Modelled from the spec: \<open>SetLines\<close> accepts a table only when its offsets are strictly
  increasing and all smaller than the file size; \<open>None\<close> is its result \<open>false\<close>.\<close>

fun linesOk :: "int \<Rightarrow> int list \<Rightarrow> bool" where
  "linesOk sz [] = True"
| "linesOk sz [x] = (x < sz)"
| "linesOk sz (x # y # rest) = (x < sz \<and> x < y \<and> linesOk sz (y # rest))"

definition SetLines :: "TokenFile \<Rightarrow> int list \<Rightarrow> TokenFile option" where
  "SetLines F ls = (if linesOk (fsize F) ls then Some (F\<lparr>lines := ls\<rparr>) else None)"

text \<open>The invariant of a line table: it starts with offset 0, is strictly increasing
  (hence free of duplicates) and stays inside the file.\<close>

definition validTable :: "TokenFile \<Rightarrow> bool" where
  "validTable F =
     (lines F \<noteq> [] \<and> hd (lines F) = 0 \<and> sorted_wrt (<) (lines F) \<and> list_all (\<lambda>s. s < fsize F) (lines F))"

definition validPos :: "TokenFile \<Rightarrow> int \<Rightarrow> bool" where
  "validPos F p = (base F \<le> p \<and> p \<le> base F + fsize F \<and> p \<noteq> NoPos)"

section \<open>Comments and the formatter's state\<close>

text \<open>A comment token is its position (\<open>Slash\<close>) and its text; a comment group is the
  non-empty list of its tokens.\<close>

record Comment =
  Slash :: int
  Text :: string

type_synonym CommentGroup = "Comment list"

record Options =
  LangVersion :: string
  ExtraRules :: bool

text \<open>The formatter's state: the options, the line table (\<open>tfile\<close>, Go's embedded
  \<open>*token.File\<close>), the comment list and end position of the syntax tree's file
  (\<open>astFile.Comments\<close>, \<open>astFile.End()\<close>), the block level and the minimum split factor.\<close>

record fumpter = Options +
  tfile :: TokenFile
  Comments :: "CommentGroup list"
  astEnd :: int
  blockLevel :: int
  minSplitFactor :: rat

section \<open>addNewline\<close>

text \<open>The loop of \<open>addNewline\<close> over the current table: \<open>None\<close> is the early return taken
  when the offset is already a line start; otherwise the loop yields the table built so far
  and the offset still to be appended (\<open>-1\<close> once it has been inserted).\<close>

fun addNewline_loop :: "int list \<Rightarrow> int \<Rightarrow> int list \<Rightarrow> (int list \<times> int) option" where
  "addNewline_loop [] offset acc = Some (acc, offset)"
| "addNewline_loop (cur # rest) offset acc =
     (if offset = cur then None
      else if offset \<ge> 0 \<and> offset < cur then addNewline_loop rest (-1) (acc @ [offset, cur])
      else addNewline_loop rest offset (acc @ [cur]))"

definition addNewline :: "fumpter \<Rightarrow> int \<Rightarrow> error + fumpter" where
  "addNewline f atPos =
     (case addNewline_loop (lines (tfile f)) (Offset (tfile f) atPos) [] of
        None \<Rightarrow> Inr f
      | Some (ls, offset) \<Rightarrow>
          (case SetLines (tfile f) (if offset \<ge> 0 then ls @ [offset] else ls) of
             None \<Rightarrow> Inl (Panic ''could not set lines'')
           | Some F \<Rightarrow> Inr (f\<lparr>tfile := F\<rparr>)))"


section \<open>Syntax trees\<close>

text \<open>The syntax tree is go/ast's. Only the node kinds the rules below inspect are spelled
  out; every other kind is a node with just its extent (\<open>OtherExpr\<close>, \<open>OtherStmt\<close>). The
  fields keep go/ast's names and order, and \<open>Pos\<close>/\<open>End\<close> are go/ast's methods.\<close>

text \<open>Tokens, as far as the rules name them (\<open>INT'\<close> is Go's \<open>token.INT\<close>).\<close>

datatype token = INT' | FLOAT | IMAG | CHAR | STRING | ASSIGN | DEFINE | EQL | NEQ | LAND | LOR
  | AND | VAR | OtherToken nat

datatype expr =
    Ident int string
  | BasicLit int token string
  | CompositeLit "expr option" int "expr list" int
  | UnaryExpr int token expr
  | BinaryExpr expr int token expr
  | CallExpr expr int "expr list" int
  | OtherExpr int int

fun exprPos :: "expr \<Rightarrow> int" where
  "exprPos (Ident namePos name) = namePos"
| "exprPos (BasicLit valuePos kind val) = valuePos"
| "exprPos (CompositeLit ty lbrace elts rbrace) =
     (case ty of Some t \<Rightarrow> exprPos t | None \<Rightarrow> lbrace)"
| "exprPos (UnaryExpr opPos op x) = opPos"
| "exprPos (BinaryExpr x opPos op y) = exprPos x"
| "exprPos (CallExpr fn lparen args rparen) = exprPos fn"
| "exprPos (OtherExpr p e) = p"

fun exprEnd :: "expr \<Rightarrow> int" where
  "exprEnd (Ident namePos name) = namePos + int (length name)"
| "exprEnd (BasicLit valuePos kind val) = valuePos + int (length val)"
| "exprEnd (CompositeLit ty lbrace elts rbrace) = rbrace + 1"
| "exprEnd (UnaryExpr opPos op x) = exprEnd x"
| "exprEnd (BinaryExpr x opPos op y) = exprEnd y"
| "exprEnd (CallExpr fn lparen args rparen) = rparen + 1"
| "exprEnd (OtherExpr p e) = e"

text \<open>A statement: an assignment (\<open>Lhs\<close>, \<open>TokPos\<close>, \<open>Tok\<close>, \<open>Rhs\<close>), an if statement
  (\<open>If\<close>, \<open>Init\<close>, \<open>Cond\<close>, \<open>Body\<close>, \<open>Else\<close>), a block (\<open>Lbrace\<close>, \<open>List\<close>, \<open>Rbrace\<close>), or
  any other statement. The parser never yields an assignment without operands; go/ast's
  \<open>Pos\<close> and \<open>End\<close> would panic on one, and are given \<open>NoPos\<close> there.\<close>

datatype stmt =
    AssignStmt "expr list" int token "expr list"
  | IfStmt int "stmt option" expr stmt "stmt option"
  | BlockStmt int "stmt list" int
  | OtherStmt int int

fun stmtPos :: "stmt \<Rightarrow> int" where
  "stmtPos (AssignStmt lhs tokPos tok rhs) = (case lhs of [] \<Rightarrow> NoPos | e # _ \<Rightarrow> exprPos e)"
| "stmtPos (IfStmt ifPos ini cond body els) = ifPos"
| "stmtPos (BlockStmt lbrace list rbrace) = lbrace"
| "stmtPos (OtherStmt p e) = p"

fun stmtEnd :: "stmt \<Rightarrow> int" where
  "stmtEnd (AssignStmt lhs tokPos tok rhs) = (if rhs = [] then NoPos else exprEnd (last rhs))"
| "stmtEnd (IfStmt ifPos ini cond body els) =
     (case els of Some e \<Rightarrow> stmtEnd e | None \<Rightarrow> stmtEnd body)"
| "stmtEnd (BlockStmt lbrace list rbrace) = rbrace + 1"
| "stmtEnd (OtherStmt p e) = e"

text \<open>Fields, field lists and function signatures, as far as the block rule reads them.\<close>

record Field =
  Names :: "expr list"
  Type :: "expr option"

definition fieldPos :: "Field \<Rightarrow> int" where
  "fieldPos fl =
     (case Names fl of n # _ \<Rightarrow> exprPos n
      | [] \<Rightarrow> (case Type fl of Some t \<Rightarrow> exprPos t | None \<Rightarrow> NoPos))"

definition fieldEnd :: "Field \<Rightarrow> int" where
  "fieldEnd fl =
     (case Type fl of Some t \<Rightarrow> exprEnd t
      | None \<Rightarrow> (if Names fl = [] then NoPos else exprEnd (last (Names fl))))"

record FieldList =
  Opening :: int
  List :: "Field list"
  Closing :: int

definition fieldListPos :: "FieldList \<Rightarrow> int" where
  "fieldListPos l =
     (if IsValid (Opening l) then Opening l
      else (case List l of fl # _ \<Rightarrow> fieldPos fl | [] \<Rightarrow> NoPos))"

definition fieldListEnd :: "FieldList \<Rightarrow> int" where
  "fieldListEnd l =
     (if IsValid (Closing l) then Closing l + 1
      else if List l = [] then NoPos else fieldEnd (last (List l)))"

record FuncType =
  Func :: int
  Params :: FieldList
  Results :: "FieldList option"

definition funcTypePos :: "FuncType \<Rightarrow> int" where
  "funcTypePos ft = (if IsValid (Func ft) then Func ft else fieldListPos (Params ft))"

definition funcTypeEnd :: "FuncType \<Rightarrow> int" where
  "funcTypeEnd ft =
     (case Results ft of Some r \<Rightarrow> fieldListEnd r | None \<Rightarrow> fieldListEnd (Params ft))"

section \<open>The comment index\<close>

text \<open>go/ast: a comment ends after its text; a group starts at its first token and ends
  at the end of its last one (the parser never yields an empty group).\<close>

definition commentEnd :: "Comment \<Rightarrow> int" where
  "commentEnd c = Slash c + int (length (Text c))"

definition groupPos :: "CommentGroup \<Rightarrow> int" where
  "groupPos g = (case g of [] \<Rightarrow> NoPos | c # _ \<Rightarrow> Slash c)"

definition groupEnd :: "CommentGroup \<Rightarrow> int" where
  "groupEnd g = (if g = [] then NoPos else commentEnd (last g))"

text \<open>Go's \<open>sort.Search\<close>: binary search for the least index in \<open>0 .. n\<close> at which the
  predicate holds, assuming it is monotone.\<close>

function Search_loop :: "(nat \<Rightarrow> bool) \<Rightarrow> nat \<Rightarrow> nat \<Rightarrow> nat" where
  "Search_loop pred i j =
     (if i < j then
        (let h = (i + j) div 2 in
         if \<not> pred h then Search_loop pred (h + 1) j else Search_loop pred i h)
      else i)"
  by pat_completeness auto
termination
  by (relation "measure (\<lambda>(pred, i, j). j - i)") auto

declare Search_loop.simps [simp del]

definition Search :: "nat \<Rightarrow> (nat \<Rightarrow> bool) \<Rightarrow> nat" where
  "Search n pred = Search_loop pred 0 n"

definition commentsBetween :: "fumpter \<Rightarrow> int \<Rightarrow> int \<Rightarrow> CommentGroup list" where
  "commentsBetween f p1 p2 =
     (let comments = Comments f;
          i1 = Search (length comments) (\<lambda>i. groupPos (comments ! i) \<ge> p1);
          comments1 = drop i1 comments;
          i2 = Search (length comments1) (\<lambda>i. groupPos (comments1 ! i) \<ge> p2)
      in take i2 comments1)"

definition inlineComment :: "fumpter \<Rightarrow> int \<Rightarrow> Comment option" where
  "inlineComment f pos =
     (let comments = Comments f;
          i = Search (length comments) (\<lambda>i. groupPos (comments ! i) \<ge> pos)
      in if i \<ge> length comments then None
         else (let line = Line (tfile f) pos
               in find (\<lambda>comment. Line (tfile f) (Slash comment) = line) (comments ! i)))"

section \<open>Removing lines\<close>

function removeLines :: "fumpter \<Rightarrow> int \<Rightarrow> int \<Rightarrow> error + fumpter" where
  "removeLines f fromLine toLine =
     (if fromLine < toLine then
        (case MergeLine (tfile f) fromLine of
           Inl e \<Rightarrow> Inl e
         | Inr F \<Rightarrow> removeLines (f\<lparr>tfile := F\<rparr>) fromLine (toLine - 1))
      else Inr f)"
  by pat_completeness auto
termination
  by (relation "measure (\<lambda>(f, fromLine, toLine). nat (toLine - fromLine))") auto

declare removeLines.simps [simp del]

definition removeLinesBetween :: "fumpter \<Rightarrow> int \<Rightarrow> int \<Rightarrow> error + fumpter" where
  "removeLinesBetween f from to = removeLines f (Line (tfile f) from + 1) (Line (tfile f) to)"

section \<open>Length and column estimates\<close>

definition shortLineLimit :: int where
  "shortLineLimit = 60"

definition longLineLimit :: int where
  "longLineLimit = 100"

text \<open>\<open>printLength\<close>: the bytes go/format prints for the node (the printer is outside the
  repository, so its byte count \<open>printed\<close> is a parameter), plus a space and the text of an
  inline comment after the node's end, plus 8 per block level.\<close>

definition printLength :: "fumpter \<Rightarrow> int \<Rightarrow> int \<Rightarrow> int" where
  "printLength f printed nodeEnd =
     (let count = (case inlineComment f nodeEnd of
                     Some c \<Rightarrow> printed + 1 + int (length (Text c))
                   | None \<Rightarrow> printed)
      in count + blockLevel f * 8)"

definition tabbedColumn :: "fumpter \<Rightarrow> int \<Rightarrow> int" where
  "tabbedColumn f p = Column (tfile f) p + blockLevel f * 7"

definition lineEnd :: "fumpter \<Rightarrow> int \<Rightarrow> error + int" where
  "lineEnd f line =
     (if line < 1 then Inl (Panic ''illegal line number'')
      else let total = LineCount (tfile f) in
        if line > total then Inl (Panic ''illegal line number'')
        else if line = total then Inr (astEnd f)
        else (case LineStart (tfile f) (line + 1) of
                Inl e \<Rightarrow> Inl e
              | Inr p \<Rightarrow> Inr (p - 1)))"

section \<open>The rule on statement lists\<close>

fun identEqual :: "expr \<Rightarrow> string \<Rightarrow> bool" where
  "identEqual (Ident namePos idName) name = (idName = name)"
| "identEqual _ name = False"

text \<open>One iteration of the loop of \<open>stmts\<close> at an index \<open>i \<ge> 1\<close>: \<open>prev\<close> is \<open>list[i-1]\<close> and
  \<open>stmt\<close> is \<open>list[i]\<close>. Indexing the last left-hand side and taking the end of the
  assignment panic in Go when the operand list is empty.\<close>

definition stmtsStep :: "fumpter \<Rightarrow> stmt \<Rightarrow> stmt \<Rightarrow> error + fumpter" where
  "stmtsStep f prev stmt =
     (case stmt of
        IfStmt ifPos ini cond body els \<Rightarrow>
          (case prev of
             AssignStmt lhs tokPos tok rhs \<Rightarrow>
               if tok \<noteq> DEFINE then Inr f
               else if lhs = [] then Inl (Panic ''index out of range'')
               else if \<not> identEqual (last lhs) ''err'' then Inr f
               else (case cond of
                       BinaryExpr x opPos op y \<Rightarrow>
                         if ini \<noteq> None \<or> els \<noteq> None then Inr f
                         else if op \<noteq> NEQ \<or> \<not> identEqual x ''err'' \<or> \<not> identEqual y ''nil''
                           then Inr f
                         else if rhs = [] then Inl (Panic ''index out of range'')
                         else removeLinesBetween f (stmtEnd prev) (stmtPos stmt)
                     | _ \<Rightarrow> Inr f)
           | _ \<Rightarrow> Inr f)
      | _ \<Rightarrow> Inr f)"

fun stmtsFrom :: "fumpter \<Rightarrow> stmt \<Rightarrow> stmt list \<Rightarrow> error + fumpter" where
  "stmtsFrom f prev [] = Inr f"
| "stmtsFrom f prev (stmt # rest) =
     (case stmtsStep f prev stmt of
        Inl e \<Rightarrow> Inl e
      | Inr f' \<Rightarrow> stmtsFrom f' stmt rest)"

fun stmts :: "fumpter \<Rightarrow> stmt list \<Rightarrow> error + fumpter" where
  "stmts f [] = Inr f"
| "stmts f (stmt # rest) = stmtsFrom f stmt rest"

section \<open>The rule on blocks\<close>

text \<open>What the block rule reads of the block's parent: the signature of a function
  declaration or literal, the condition of an if or for statement (a for statement may
  have none), or nothing.\<close>

datatype parent =
    PFuncDecl FuncType
  | PFuncLit FuncType
  | PIfStmt expr
  | PForStmt "expr option"
  | POther

fun parentSign :: "parent \<Rightarrow> FuncType option" where
  "parentSign (PFuncDecl ft) = Some ft"
| "parentSign (PFuncLit ft) = Some ft"
| "parentSign _ = None"

fun parentCond :: "parent \<Rightarrow> expr option" where
  "parentCond (PIfStmt c) = Some c"
| "parentCond (PForStmt c) = c"
| "parentCond _ = None"

text \<open>The extent of the block's body: its statements, widened by the comments between
  the braces.\<close>

definition blockBodyPos :: "stmt list \<Rightarrow> CommentGroup list \<Rightarrow> int" where
  "blockBodyPos list comments =
     (let bodyPos = (if list \<noteq> [] then stmtPos (hd list) else NoPos)
      in if comments \<noteq> [] \<and> (\<not> IsValid bodyPos \<or> groupPos (hd comments) < bodyPos)
         then groupPos (hd comments) else bodyPos)"

definition blockBodyEnd :: "stmt list \<Rightarrow> CommentGroup list \<Rightarrow> int" where
  "blockBodyEnd list comments =
     (let bodyEnd = (if list \<noteq> [] then stmtEnd (last list) else NoPos)
      in if comments \<noteq> [] \<and>
            (\<not> IsValid (blockBodyPos list comments) \<or> groupEnd (last comments) > bodyEnd)
         then groupEnd (last comments) else bodyEnd)"

text \<open>The last field of the signature: of the results when there are any, else of the
  parameters.\<close>

definition lastParam :: "FuncType \<Rightarrow> Field option" where
  "lastParam sign =
     (case Results sign of
        Some l \<Rightarrow>
          if List l \<noteq> [] then Some (last (List l))
          else if List (Params sign) \<noteq> [] then Some (last (List (Params sign)))
          else None
      | None \<Rightarrow>
          if List (Params sign) \<noteq> [] then Some (last (List (Params sign))) else None)"

definition multilineCond :: "fumpter \<Rightarrow> parent \<Rightarrow> bool" where
  "multilineCond f par =
     (case parentCond par of
        Some cond \<Rightarrow> Line (tfile f) (exprPos cond) \<noteq> Line (tfile f) (exprEnd cond)
      | None \<Rightarrow> False)"

definition multilineSign :: "fumpter \<Rightarrow> parent \<Rightarrow> bool" where
  "multilineSign f par =
     (case parentSign par of
        Some sign \<Rightarrow>
          (let endLine = Line (tfile f) (funcTypeEnd sign)
           in case lastParam sign of
                Some lp \<Rightarrow> Line (tfile f) (funcTypePos sign) \<noteq> endLine
                            \<and> Line (tfile f) (fieldPos lp) = endLine
              | None \<Rightarrow> False)
      | None \<Rightarrow> False)"

definition applyPre_BlockStmt :: "fumpter \<Rightarrow> parent \<Rightarrow> int \<Rightarrow> stmt list \<Rightarrow> int \<Rightarrow> error + fumpter" where
  "applyPre_BlockStmt f par lbrace list rbrace =
     (case stmts f list of
        Inl e \<Rightarrow> Inl e
      | Inr f1 \<Rightarrow>
          (let comments = commentsBetween f1 lbrace rbrace in
           if list = [] \<and> comments = [] then removeLinesBetween f1 lbrace rbrace
           else if length list > 1 \<and> parentSign par = None then Inr f1
           else
             (case removeLinesBetween f1 (blockBodyEnd list comments) rbrace of
                Inl e \<Rightarrow> Inl e
              | Inr f2 \<Rightarrow>
                  if multilineCond f2 par then Inr f2
                  else if multilineSign f2 par then Inr f2
                  else removeLinesBetween f2 lbrace (blockBodyPos list comments))))"

section \<open>The rule on composite literals\<close>

fun isCompositeLit :: "expr \<Rightarrow> bool" where
  "isCompositeLit (CompositeLit ty lbrace elts rbrace) = True"
| "isCompositeLit _ = False"

text \<open>The first loop over the elements: \<open>i\<close> is the index of the head of the remaining
  elements. It yields the state, \<open>lastLine\<close>, \<open>newlineAroundElems\<close> and
  \<open>newlineBetweenElems\<close>.\<close>

fun compositeLoop ::
  "fumpter \<Rightarrow> int \<Rightarrow> expr list \<Rightarrow> nat \<Rightarrow> int \<Rightarrow> bool \<Rightarrow> bool \<Rightarrow> error + (fumpter \<times> int \<times> bool \<times> bool)" where
  "compositeLoop f openLine [] i lastLine around between = Inr (f, lastLine, around, between)"
| "compositeLoop f openLine (elem # rest) i lastLine around between =
     (let elPos = Line (tfile f) (exprPos elem) in
      if elPos > lastLine then
        (if i = 0 then
           (case removeLines f (openLine + 1) elPos of
              Inl e \<Rightarrow> Inl e
            | Inr f' \<Rightarrow>
                compositeLoop f' openLine rest (i + 1) (Line (tfile f') (exprEnd elem)) True between)
         else compositeLoop f openLine rest (i + 1) (Line (tfile f) (exprEnd elem)) around True)
      else compositeLoop f openLine rest (i + 1) (Line (tfile f) (exprEnd elem)) around between)"

text \<open>The second loop, over the pairs of consecutive elements.\<close>

fun compositeBreaks :: "fumpter \<Rightarrow> expr list \<Rightarrow> error + fumpter" where
  "compositeBreaks f (elem1 # elem2 # rest) =
     (if \<not> isCompositeLit elem1 \<and> \<not> isCompositeLit elem2 then compositeBreaks f (elem2 # rest)
      else if Line (tfile f) (exprEnd elem1) = Line (tfile f) (exprPos elem2) then
        (case addNewline f (exprEnd elem1) of
           Inl e \<Rightarrow> Inl e
         | Inr f' \<Rightarrow> compositeBreaks f' (elem2 # rest))
      else compositeBreaks f (elem2 # rest))"
| "compositeBreaks f elts = Inr f"

text \<open>The newlines after the opening and before the closing brace. \<open>closeLine\<close> is the
  line of the closing brace as read before the first loop; it is read again only
  when a newline is added after the opening brace.\<close>

definition compositeBraces :: "fumpter \<Rightarrow> int \<Rightarrow> expr list \<Rightarrow> int \<Rightarrow> int \<Rightarrow> int \<Rightarrow> error + fumpter" where
  "compositeBraces f lbrace elts rbrace openLine closeLine =
     (case (if openLine = Line (tfile f) (exprPos (hd elts)) then
              (case addNewline f (lbrace + 1) of
                 Inl e \<Rightarrow> Inl e
               | Inr f' \<Rightarrow> Inr (f', Line (tfile f') rbrace))
            else Inr (f, closeLine)) of
        Inl e \<Rightarrow> Inl e
      | Inr (f', closeLine') \<Rightarrow>
          if closeLine' = Line (tfile f') (exprEnd (last elts)) then addNewline f' rbrace
          else Inr f')"

definition applyPost_CompositeLit :: "fumpter \<Rightarrow> int \<Rightarrow> expr list \<Rightarrow> int \<Rightarrow> error + fumpter" where
  "applyPost_CompositeLit f lbrace elts rbrace =
     (if elts = [] then Inr f
      else
        (let openLine = Line (tfile f) lbrace; closeLine = Line (tfile f) rbrace in
         if openLine = closeLine then Inr f
         else
           (case compositeLoop f openLine elts 0 openLine False False of
              Inl e \<Rightarrow> Inl e
            | Inr (f1, lastLine, around, between) \<Rightarrow>
                (case (if between \<or> (around \<or> closeLine > lastLine)
                       then compositeBraces f1 lbrace elts rbrace openLine closeLine
                       else Inr f1) of
                   Inl e \<Rightarrow> Inl e
                 | Inr f2 \<Rightarrow> if \<not> between then Inr f2 else compositeBreaks f2 elts))))"

section \<open>Splitting long lines\<close>

text \<open>What \<open>splitLongLine\<close> reads of the traversal cursor: the node (possibly none), whether
  its parent is a binary expression, and its index in the parent's list (negative when it
  is not in a list).\<close>

datatype node = ExprNode expr | StmtNode stmt | FieldNode Field | OtherNode int int

fun nodePos :: "node \<Rightarrow> int" where
  "nodePos (ExprNode e) = exprPos e"
| "nodePos (StmtNode s) = stmtPos s"
| "nodePos (FieldNode fl) = fieldPos fl"
| "nodePos (OtherNode p e) = p"

fun nodeEnd :: "node \<Rightarrow> int" where
  "nodeEnd (ExprNode e) = exprEnd e"
| "nodeEnd (StmtNode s) = stmtEnd s"
| "nodeEnd (FieldNode fl) = fieldEnd fl"
| "nodeEnd (OtherNode p e) = e"

record Cursor =
  cNode :: "node option"
  cParentIsBinaryExpr :: bool
  cIndex :: int

text \<open>\<open>isComposite\<close> yields the elements of the composite literal a node is, possibly under
  unary operators such as \<open>&\<close>.\<close>

fun isCompositeExpr :: "expr \<Rightarrow> expr list option" where
  "isCompositeExpr (CompositeLit ty lbrace elts rbrace) = Some elts"
| "isCompositeExpr (UnaryExpr opPos op x) = isCompositeExpr x"
| "isCompositeExpr _ = None"

fun isComposite :: "node \<Rightarrow> expr list option" where
  "isComposite (ExprNode e) = isCompositeExpr e"
| "isComposite _ = None"

fun callFirstArg :: "node \<Rightarrow> expr option" where
  "callFirstArg (ExprNode (CallExpr fn lparen (a # args) rparen)) = Some a"
| "callFirstArg _ = None"

text \<open>Go's integer division and its conversion of a float to an integer both truncate
  toward zero.\<close>

definition goDiv :: "int \<Rightarrow> int \<Rightarrow> int" where
  "goDiv a b = (if a < 0 then - ((- a) div b) else a div b)"

definition goTrunc :: "rat \<Rightarrow> int" where
  "goTrunc r = (if r < 0 then \<lceil>r\<rceil> else \<lfloor>r\<rfloor>)"

text \<open>The minimum split factor is a float64 in the source. The three values ever stored
  in it are 0.4, 0.6 and 1000, whose float64 products with 100 are exactly 40, 60 and
  100000, as the rational products are; the model keeps the factor as a rational.\<close>

definition minSplitLength :: "fumpter \<Rightarrow> int" where
  "minSplitLength f = goTrunc (minSplitFactor f * of_int longLineLimit)"

definition newlinePosOf :: "node \<Rightarrow> int" where
  "newlinePosOf nd =
     (case isComposite nd of
        Some (first # elts) \<Rightarrow> exprPos first
      | _ \<Rightarrow> nodePos nd)"

definition startColOf :: "fumpter \<Rightarrow> node \<Rightarrow> int" where
  "startColOf f nd =
     (let startCol = Column (tfile f) (nodePos nd) + blockLevel f * 7
      in case callFirstArg nd of
           Some a \<Rightarrow> startCol + goDiv (Column (tfile f) (exprPos a) - Column (tfile f) (nodePos nd)) 2
         | None \<Rightarrow> startCol)"

text \<open>\<open>env\<close> is the value of the environment variable \<open>GOFUMPT_SPLIT_LONG_LINES\<close>.\<close>

definition splitLongLine :: "string \<Rightarrow> fumpter \<Rightarrow> Cursor \<Rightarrow> error + fumpter" where
  "splitLongLine env f c =
     (if env \<noteq> ''on'' then Inr f
      else case cNode c of
        None \<Rightarrow> Inr f
      | Some nd \<Rightarrow>
          if Line (tfile f) (nodePos nd) \<noteq> Line (tfile f) (nodeEnd nd) then Inr f
          else if \<not> (cParentIsBinaryExpr c \<or> cIndex c \<ge> 0) then Inr f
          else
            (let endCol = Column (tfile f) (nodeEnd nd) + blockLevel f * 7 in
             if startColOf f nd \<le> shortLineLimit then Inr f
             else
               (case lineEnd f (Line (tfile f) (nodePos nd)) of
                  Inl e \<Rightarrow> Inl e
                | Inr le \<Rightarrow>
                    (let firstLength = Column (tfile f) (nodePos nd) - blockLevel f in
                     if firstLength < 0 then Inl (Panic ''negative length'')
                     else
                       (let secondLength = Column (tfile f) le - Column (tfile f) (nodePos nd) in
                        if secondLength < 0 then Inl (Panic ''negative length'')
                        else if endCol > longLineLimit \<and> firstLength \<ge> minSplitLength f
                                \<and> secondLength \<ge> minSplitLength f
                          then addNewline f (newlinePosOf nd)
                        else Inr f)))))"

section \<open>The entry point and the traversal context\<close>

text \<open>The closures of \<open>File\<close> around the rules. On entering a field list whose parent is
  the signature of the current top-level function: the parameter list sets the factor
  to 0.6, the result list to 1000. On leaving that signature the factor is reset to 0.4.
  A block raises the block level on entry and lowers it on exit.\<close>

definition preFieldList :: "fumpter \<Rightarrow> bool \<Rightarrow> bool \<Rightarrow> bool \<Rightarrow> fumpter" where
  "preFieldList f parentIsTopFuncType isParams isResults =
     (if \<not> parentIsTopFuncType then f
      else
        (let f1 = (if isParams then f\<lparr>minSplitFactor := 6 / 10\<rparr> else f)
         in if isResults then f1\<lparr>minSplitFactor := 1000\<rparr> else f1))"

definition postFuncType :: "fumpter \<Rightarrow> bool \<Rightarrow> fumpter" where
  "postFuncType f isTopFuncType = (if isTopFuncType then f\<lparr>minSplitFactor := 4 / 10\<rparr> else f)"

definition preBlockStmt :: "fumpter \<Rightarrow> fumpter" where
  "preBlockStmt f = f\<lparr>blockLevel := blockLevel f + 1\<rparr>"

definition postBlockStmt :: "fumpter \<Rightarrow> fumpter" where
  "postBlockStmt f = f\<lparr>blockLevel := blockLevel f - 1\<rparr>"

definition normalizeLangVersion :: "string \<Rightarrow> string" where
  "normalizeLangVersion v = (if v = [] then ''v1'' else if hd v \<noteq> CHR ''v'' then ''v'' @ v else v)"

text \<open>\<open>File\<close>. Two things it calls are outside the repository and are parameters:
  \<open>isValid\<close> is \<open>semver.IsValid\<close>, and \<open>apply\<close> is the traversal \<open>astutil.Apply\<close> running the
  rules from the initial state. The arguments \<open>F\<close>, \<open>comments\<close> and \<open>fileEnd\<close> are what the
  file set and the syntax tree's file give: line table, comment list and end position.\<close>

definition File ::
  "(string \<Rightarrow> bool) \<Rightarrow> (fumpter \<Rightarrow> error + fumpter) \<Rightarrow> TokenFile \<Rightarrow> CommentGroup list \<Rightarrow> int
    \<Rightarrow> Options \<Rightarrow> error + fumpter" where
  "File isValid apply F comments fileEnd opts =
     (let v = normalizeLangVersion (LangVersion opts) in
      if \<not> isValid v then Inl (Panic (''invalid semver string: '' @ v))
      else apply \<lparr>LangVersion = v, ExtraRules = ExtraRules opts, tfile = F, Comments = comments,
                   astEnd = fileEnd, blockLevel = 0, minSplitFactor = 4 / 10\<rparr>)"

section \<open>Comment spacing\<close>

definition TrimPrefix :: "string \<Rightarrow> string \<Rightarrow> string" where
  "TrimPrefix s prefix = (if take (length prefix) s = prefix then drop (length prefix) s else s)"

definition byteOf :: "char \<Rightarrow> nat" where
  "byteOf c = of_char c"

definition isLower :: "char \<Rightarrow> bool" where
  "isLower c = (97 \<le> byteOf c \<and> byteOf c \<le> 122)"

definition isWordChar :: "char \<Rightarrow> bool" where
  "isWordChar c =
     ((48 \<le> byteOf c \<and> byteOf c \<le> 57) \<or> (65 \<le> byteOf c \<and> byteOf c \<le> 90)
      \<or> (97 \<le> byteOf c \<and> byteOf c \<le> 122) \<or> c = CHR ''_'')"

text \<open>A keyword followed by a word boundary, at the start of the string.\<close>

definition keywordAtStart :: "string \<Rightarrow> string \<Rightarrow> bool" where
  "keywordAtStart kw s =
     (take (length kw) s = kw \<and>
      (case drop (length kw) s of [] \<Rightarrow> True | c # _ \<Rightarrow> \<not> isWordChar c))"

text \<open>The first alternative of the directive pattern, \<open>[a-z-]+:[a-z]+\<close> at the start of the
  string: a non-empty run of lower-case letters and dashes, a colon, a lower-case letter.\<close>

definition wordsColonAtStart :: "string \<Rightarrow> bool" where
  "wordsColonAtStart s =
     (takeWhile (\<lambda>c. isLower c \<or> c = CHR ''-'') s \<noteq> [] \<and>
      (case dropWhile (\<lambda>c. isLower c \<or> c = CHR ''-'') s of
         c1 # c2 # _ \<Rightarrow> c1 = CHR '':'' \<and> isLower c2
       | _ \<Rightarrow> False))"

definition rxCommentDirective :: "string \<Rightarrow> bool" where
  "rxCommentDirective s =
     (wordsColonAtStart s \<or> keywordAtStart ''line'' s \<or> keywordAtStart ''export'' s
      \<or> keywordAtStart ''extern'' s \<or> keywordAtStart ''sysnb'' s \<or> keywordAtStart ''sys'' s
      \<or> keywordAtStart ''nolint'' s)"

text \<open>\<open>utf8.DecodeRuneInString\<close>, the rune only: the first code point of the string, and
  \<open>RuneError\<close> (U+FFFD) for the empty string and for an ill-formed encoding.\<close>

definition RuneError :: nat where
  "RuneError = 65533"

definition isCont :: "char \<Rightarrow> bool" where
  "isCont c = (128 \<le> byteOf c \<and> byteOf c \<le> 191)"

fun DecodeRuneInString :: "string \<Rightarrow> nat" where
  "DecodeRuneInString [] = RuneError"
| "DecodeRuneInString (c0 # rest) =
     (let b0 = byteOf c0 in
      if b0 < 128 then b0
      else if 194 \<le> b0 \<and> b0 \<le> 223 then
        (case rest of
           c1 # _ \<Rightarrow> if isCont c1 then (b0 - 192) * 64 + (byteOf c1 - 128) else RuneError
         | _ \<Rightarrow> RuneError)
      else if 224 \<le> b0 \<and> b0 \<le> 239 then
        (case rest of
           c1 # c2 # _ \<Rightarrow>
             if (if b0 = 224 then 160 else 128) \<le> byteOf c1
                \<and> byteOf c1 \<le> (if b0 = 237 then 159 else 191) \<and> isCont c2
             then (b0 - 224) * 4096 + (byteOf c1 - 128) * 64 + (byteOf c2 - 128)
             else RuneError
         | _ \<Rightarrow> RuneError)
      else if 240 \<le> b0 \<and> b0 \<le> 244 then
        (case rest of
           c1 # c2 # c3 # _ \<Rightarrow>
             if (if b0 = 240 then 144 else 128) \<le> byteOf c1
                \<and> byteOf c1 \<le> (if b0 = 244 then 143 else 191) \<and> isCont c2 \<and> isCont c3
             then (b0 - 240) * 262144 + (byteOf c1 - 128) * 4096 + (byteOf c2 - 128) * 64
                  + (byteOf c3 - 128)
             else RuneError
         | _ \<Rightarrow> RuneError)
      else RuneError)"

text \<open>Go's \<open>unicode\<close> predicates. White space is a short list. The letter and number
  categories beyond ASCII are Unicode's tables, which are outside the repository and
  are parameters.\<close>

record UnicodeTables =
  letterTable :: "nat \<Rightarrow> bool"
  numberTable :: "nat \<Rightarrow> bool"

definition IsSpace :: "nat \<Rightarrow> bool" where
  "IsSpace r =
     (r \<in> {9, 10, 11, 12, 13, 32, 133, 160, 5760, 8232, 8233, 8239, 8287, 12288}
      \<or> (8192 \<le> r \<and> r \<le> 8202))"

definition IsLetter :: "UnicodeTables \<Rightarrow> nat \<Rightarrow> bool" where
  "IsLetter U r =
     (if r < 128 then (65 \<le> r \<and> r \<le> 90) \<or> (97 \<le> r \<and> r \<le> 122) else letterTable U r)"

definition IsNumber :: "UnicodeTables \<Rightarrow> nat \<Rightarrow> bool" where
  "IsNumber U r = (if r < 128 then 48 \<le> r \<and> r \<le> 57 else numberTable U r)"

text \<open>The first inner loop of the comment pass: a comment that makes the pass leave its
  whole group alone, because it is a \<open>/*\<close>-style comment, a directive, or possibly code.\<close>

definition skipsGroup :: "UnicodeTables \<Rightarrow> Comment \<Rightarrow> bool" where
  "skipsGroup U comment =
     (let body = TrimPrefix (Text comment) ''//'' in
      if body = Text comment then True
      else if rxCommentDirective body then True
      else (let r = DecodeRuneInString body
            in \<not> IsLetter U r \<and> \<not> IsNumber U r \<and> \<not> IsSpace r))"

text \<open>The second inner loop: add a space after the marker when the body does not start
  with white space.\<close>

definition addSpace :: "Comment \<Rightarrow> Comment" where
  "addSpace comment =
     (let body = TrimPrefix (Text comment) ''//'' in
      if \<not> IsSpace (DecodeRuneInString body)
      then comment\<lparr>Text := ''// '' @ TrimPrefix (Text comment) ''//''\<rparr>
      else comment)"

definition fixGroup :: "UnicodeTables \<Rightarrow> CommentGroup \<Rightarrow> CommentGroup" where
  "fixGroup U g = (if list_ex (skipsGroup U) g then g else map addSpace g)"

definition fixComments :: "UnicodeTables \<Rightarrow> fumpter \<Rightarrow> fumpter" where
  "fixComments U f = f\<lparr>Comments := map (fixGroup U) (Comments f)\<rparr>"

section \<open>Octal literals\<close>

definition isOctalOrUnderscore :: "char \<Rightarrow> bool" where
  "isOctalOrUnderscore c = ((48 \<le> byteOf c \<and> byteOf c \<le> 55) \<or> c = CHR ''_'')"

text \<open>The pattern \<open>\A0[0-7_]+\z\<close>.\<close>

definition rxOctalInteger :: "string \<Rightarrow> bool" where
  "rxOctalInteger s =
     (case s of
        c # rest \<Rightarrow> c = CHR ''0'' \<and> rest \<noteq> [] \<and> list_all isOctalOrUnderscore rest
      | [] \<Rightarrow> False)"

text \<open>The rule on basic literals, on the literal's kind and value. \<open>compare\<close> is
  \<open>semver.Compare\<close>, which is outside the repository and a parameter.\<close>

definition applyPre_BasicLit ::
  "(string \<Rightarrow> string \<Rightarrow> int) \<Rightarrow> fumpter \<Rightarrow> token \<Rightarrow> string \<Rightarrow> string" where
  "applyPre_BasicLit compare f kind val =
     (if compare (LangVersion f) ''v1.13'' \<ge> 0 then
        (if kind = INT' \<and> rxOctalInteger val then ''0o'' @ drop 1 val else val)
      else val)"

text \<open>The value of an octal integer literal in either spelling, after the Go language
  specification: underscores separate digits and do not count.\<close>

definition octalDigits :: "string \<Rightarrow> nat" where
  "octalDigits s = foldl (\<lambda>acc c. if c = CHR ''_'' then acc else acc * 8 + (byteOf c - 48)) 0 s"

definition octalValue :: "string \<Rightarrow> nat option" where
  "octalValue s =
     (if take 2 s = ''0o'' \<or> take 2 s = ''0O'' then
        (if list_all isOctalOrUnderscore (drop 2 s) \<and> drop 2 s \<noteq> [] then Some (octalDigits (drop 2 s))
         else None)
      else if rxOctalInteger s then Some (octalDigits (drop 1 s))
      else None)"

section \<open>Concrete inputs\<close>

text \<open>A file of 30 bytes at base 1 whose lines start at offsets 0, 10 and 20, with no
  comments.\<close>

definition threeLines :: TokenFile where
  "threeLines = \<lparr>base = 1, fsize = 30, lines = [0, 10, 20]\<rparr>"

definition fumpterOf :: "TokenFile \<Rightarrow> CommentGroup list \<Rightarrow> fumpter" where
  "fumpterOf F comments =
     \<lparr>LangVersion = ''v1'', ExtraRules = False, tfile = F, Comments = comments,
      astEnd = base F + fsize F, blockLevel = 0, minSplitFactor = 4 / 10\<rparr>"

text \<open>Two comment groups: tokens at positions 12 and 22, and a token at position 27.\<close>

definition twoComments :: "CommentGroup list" where
  "twoComments = [[\<lparr>Slash = 12, Text = ''// a''\<rparr>, \<lparr>Slash = 22, Text = ''// b''\<rparr>], [\<lparr>Slash = 27, Text = ''// c''\<rparr>]]"

section \<open>Facts about the line table\<close>

lemma linesOk_iff: "linesOk sz ls = (sorted_wrt (<) ls \<and> list_all (\<lambda>s. s < sz) ls)"
  by (induction sz ls rule: linesOk.induct) (auto, force)

lemma addNewline_loop_done:
  "\<forall>c\<in>set ls. 0 \<le> c \<Longrightarrow> addNewline_loop ls (-1) acc = Some (acc @ ls, -1)"
  by (induction ls arbitrary: acc) auto

lemma addNewline_loop_found:
  "sorted_wrt (<) ls \<Longrightarrow> x \<in> set ls \<Longrightarrow> addNewline_loop ls x acc = None"
  by (induction ls arbitrary: acc) auto

lemma addNewline_loop_insert:
  "sorted_wrt (<) ls \<Longrightarrow> \<forall>c\<in>set ls. 0 \<le> c \<Longrightarrow> 0 \<le> x \<Longrightarrow> x \<notin> set ls \<Longrightarrow>
   addNewline_loop ls x acc =
     (if \<exists>c\<in>set ls. x < c then Some (acc @ insort x ls, -1) else Some (acc @ ls, x))"
proof (induction ls arbitrary: acc)
  case Nil
  then show ?case by simp
next
  case (Cons c ls)
  show ?case
  proof (cases "x < c")
    case True
    with Cons.prems have "addNewline_loop (c # ls) x acc = addNewline_loop ls (-1) (acc @ [x, c])"
      by simp
    also have "\<dots> = Some ((acc @ [x, c]) @ ls, -1)"
      using Cons.prems by (intro addNewline_loop_done) simp
    finally show ?thesis using True by simp
  next
    case False
    with Cons.prems have lt: "c < x" by auto
    then have "addNewline_loop (c # ls) x acc = addNewline_loop ls x (acc @ [c])"
      using Cons.prems by simp
    also have "\<dots> = (if \<exists>d\<in>set ls. x < d then Some ((acc @ [c]) @ insort x ls, -1)
                        else Some ((acc @ [c]) @ ls, x))"
      using Cons.prems by (intro Cons.IH) auto
    finally show ?thesis using lt by auto
  qed
qed

lemma insort_last: "\<forall>c\<in>set ls. c < (x::int) \<Longrightarrow> insort x ls = ls @ [x]"
  by (induction ls) auto

lemma sorted_wrt_insort: "sorted_wrt (<) ls \<Longrightarrow> (x::int) \<notin> set ls \<Longrightarrow> sorted_wrt (<) (insort x ls)"
  by (induction ls) (auto simp: set_insort_key)

lemma lineOfOffset_bounds: "0 \<le> lineOfOffset ls off \<and> lineOfOffset ls off \<le> int (length ls)"
  by (simp add: lineOfOffset_def)

lemma lineOfOffset_pos: "ls \<noteq> [] \<Longrightarrow> hd ls \<le> off \<Longrightarrow> 1 \<le> lineOfOffset ls off"
  by (cases ls) (auto simp: lineOfOffset_def)


lemma addNewline_result:
  assumes vt: "validTable (tfile f)"
    and lo: "base (tfile f) \<le> p" and hi: "p < base (tfile f) + fsize (tfile f)"
    and new: "p - base (tfile f) \<notin> set (lines (tfile f))"
  shows "addNewline f p = Inr (f\<lparr>tfile := (tfile f)\<lparr>lines := insort (p - base (tfile f)) (lines (tfile f))\<rparr>\<rparr>)"
proof -
  let ?ls = "lines (tfile f)" and ?x = "p - base (tfile f)"
  have off: "Offset (tfile f) p = ?x" using lo hi by (simp add: Offset_def)
  have srt: "sorted_wrt (<) ?ls" and ne: "?ls \<noteq> []" and h0: "hd ?ls = 0"
    and bnd: "list_all (\<lambda>s. s < fsize (tfile f)) ?ls"
    using vt by (simp_all add: validTable_def)
  have nonneg: "\<forall>c\<in>set ?ls. 0 \<le> c"
    using srt ne h0 by (cases ?ls) auto
  have x0: "0 \<le> ?x" using lo by simp
  have ok: "linesOk (fsize (tfile f)) (insort ?x ?ls)"
    using srt bnd new hi by (simp add: linesOk_iff sorted_wrt_insort list_all_iff set_insort_key)
  show ?thesis
  proof (cases "\<exists>c\<in>set ?ls. ?x < c")
    case True
    then have "addNewline_loop ?ls ?x [] = Some (insort ?x ?ls, -1)"
      using addNewline_loop_insert [OF srt nonneg x0 new, of "[]"] by simp
    then show ?thesis using ok by (simp add: addNewline_def off SetLines_def)
  next
    case False
    then have "addNewline_loop ?ls ?x [] = Some (?ls, ?x)"
      using addNewline_loop_insert [OF srt nonneg x0 new, of "[]"] by simp
    moreover have "insort ?x ?ls = ?ls @ [?x]"
    proof (intro insort_last ballI)
      fix c assume c: "c \<in> set ?ls"
      with False have "\<not> ?x < c" by blast
      moreover from c new have "c \<noteq> ?x" by blast
      ultimately show "c < ?x" by linarith
    qed
    ultimately show ?thesis using ok x0 by (simp add: addNewline_def off SetLines_def)
  qed
qed

lemma addNewline_existing:
  assumes "sorted_wrt (<) (lines (tfile f))" "Offset (tfile f) p \<in> set (lines (tfile f))"
  shows "addNewline f p = Inr f"
  using assms by (simp add: addNewline_def addNewline_loop_found)

lemma Search_loop_spec:
  assumes "i \<le> j" "j \<le> n"
    and "\<forall>k<i. \<not> pred k" and "\<forall>k. j \<le> k \<and> k < n \<longrightarrow> pred k"
    and "\<forall>a b. a \<le> b \<and> b < n \<and> pred a \<longrightarrow> pred b"
  shows "Search_loop pred i j \<le> n \<and> (\<forall>k < Search_loop pred i j. \<not> pred k)
         \<and> (\<forall>k. Search_loop pred i j \<le> k \<and> k < n \<longrightarrow> pred k)"
  using assms
proof (induction pred i j rule: Search_loop.induct)
  case (1 pred i j)
  show ?case
  proof (cases "i < j")
    case False
    with "1.prems" have "i = j" by simp
    have "Search_loop pred i j = i" using False by (subst Search_loop.simps) simp
    then show ?thesis using "1.prems" \<open>i = j\<close> by simp
  next
    case True
    let ?h = "(i + j) div 2"
    have h: "i \<le> ?h" "?h < j" using True by auto
    show ?thesis
    proof (cases "pred ?h")
      case False
      have below: "\<forall>k<?h + 1. \<not> pred k"
      proof (intro allI impI)
        fix k assume "k < ?h + 1"
        then have "k \<le> ?h" by simp
        moreover have "?h < n" using h "1.prems" by simp
        ultimately show "\<not> pred k" using False "1.prems"(5) by blast
      qed
      have "Search_loop pred i j = Search_loop pred (?h + 1) j"
        using True False by (subst Search_loop.simps) (simp add: Let_def)
      moreover have "Search_loop pred (?h + 1) j \<le> n \<and> (\<forall>k < Search_loop pred (?h + 1) j. \<not> pred k)
         \<and> (\<forall>k. Search_loop pred (?h + 1) j \<le> k \<and> k < n \<longrightarrow> pred k)"
        using True False h "1.prems" below by (intro "1.IH"(1)) simp_all
      ultimately show ?thesis by simp
    next
      case pt: True
      have above: "\<forall>k. ?h \<le> k \<and> k < n \<longrightarrow> pred k"
        using pt "1.prems"(5) by blast
      have "Search_loop pred i j = Search_loop pred i ?h"
        using True pt by (subst Search_loop.simps) (simp add: Let_def)
      moreover have "Search_loop pred i ?h \<le> n \<and> (\<forall>k < Search_loop pred i ?h. \<not> pred k)
         \<and> (\<forall>k. Search_loop pred i ?h \<le> k \<and> k < n \<longrightarrow> pred k)"
        using True pt h "1.prems" above by (intro "1.IH"(2)) simp_all
      ultimately show ?thesis by simp
    qed
  qed
qed

lemma Search_least:
  assumes "\<forall>a b. a \<le> b \<and> b < n \<and> pred a \<longrightarrow> pred b"
  shows "Search n pred \<le> n \<and> (\<forall>k < Search n pred. \<not> pred k)
         \<and> (\<forall>k. Search n pred \<le> k \<and> k < n \<longrightarrow> pred k)"
  unfolding Search_def using assms by (intro Search_loop_spec) auto

text \<open>On a list sorted by a key, the index found is the length of the prefix below the bound.\<close>

lemma Search_sorted_eq:
  assumes "sorted (map key xs)"
  shows "Search (length xs) (\<lambda>i. key (xs ! i) \<ge> (p::int)) = length (takeWhile (\<lambda>x. key x < p) xs)"
proof -
  let ?pred = "\<lambda>i. key (xs ! i) \<ge> p"
  let ?r = "Search (length xs) ?pred"
  have mono: "\<forall>a b. a \<le> b \<and> b < length xs \<and> ?pred a \<longrightarrow> ?pred b"
  proof (intro allI impI)
    fix a b assume ab: "a \<le> b \<and> b < length xs \<and> ?pred a"
    then have "map key xs ! a \<le> map key xs ! b"
      using assms by (intro sorted_nth_mono) simp_all
    then show "?pred b" using ab by simp
  qed
  from Search_least [OF mono]
  have r: "?r \<le> length xs" "\<forall>k < ?r. \<not> ?pred k" "\<forall>k. ?r \<le> k \<and> k < length xs \<longrightarrow> ?pred k"
    by blast+
  have "takeWhile (\<lambda>x. key x < p) xs = take ?r xs"
  proof (rule takeWhile_eq_take_P_nth)
    show "\<And>i. i < ?r \<Longrightarrow> i < length xs \<Longrightarrow> key (xs ! i) < p" using r(2) by (simp add: not_le)
    show "?r < length xs \<Longrightarrow> \<not> key (xs ! ?r) < p" using r(3) by (simp add: not_less)
  qed
  then show ?thesis using r(1) by simp
qed

lemma find_dropWhile: "find P xs = (case dropWhile (\<lambda>x. \<not> P x) xs of [] \<Rightarrow> None | x # _ \<Rightarrow> Some x)"
  by (induction xs) auto

lemma lineOfOffset_mono: "a \<le> b \<Longrightarrow> lineOfOffset ls a \<le> lineOfOffset ls b"
proof -
  assume ab: "a \<le> b"
  have "filter (\<lambda>s. s \<le> a) ls = filter (\<lambda>s. s \<le> a) (filter (\<lambda>s. s \<le> b) ls)"
    using ab by (auto intro!: filter_cong)
  then have "length (filter (\<lambda>s. s \<le> a) ls) \<le> length (filter (\<lambda>s. s \<le> b) ls)"
    by (metis length_filter_le)
  then show ?thesis by (simp add: lineOfOffset_def)
qed

lemma Offset_mono: "0 \<le> fsize F \<Longrightarrow> p \<le> q \<Longrightarrow> Offset F p \<le> Offset F q"
  by (auto simp: Offset_def)

lemma lineOfOffset_nonneg: "0 \<le> lineOfOffset ls x"
  by (simp add: lineOfOffset_def)

lemma Line_mono: "0 \<le> fsize F \<Longrightarrow> p \<le> q \<Longrightarrow> q \<noteq> NoPos \<Longrightarrow> Line F p \<le> Line F q"
  using lineOfOffset_mono [OF Offset_mono, of F p q "lines F"] lineOfOffset_nonneg [of "lines F" "Offset F q"]
  by (simp add: Line_def)

section \<open>C9: addNewline keeps the line table intact\<close>

text \<open>C9. On a valid line table (starting at offset 0, strictly increasing, inside the
  file) and a position inside the file, \<open>addNewline\<close> returns without a panic. When the
  position's offset is already a line start the state is unchanged. Otherwise the offset
  is inserted at its place: the new table is the old one with the offset inserted in
  order, it is again strictly increasing and free of duplicates, and every position of
  the file has a line between 1 and the line count.\<close>

theorem addNewline_keeps_line_table:
  assumes "validTable (tfile f)"
    and "base (tfile f) \<le> p" and "p < base (tfile f) + fsize (tfile f)"
  shows "\<exists>f'. addNewline f p = Inr f' \<and>
           (Offset (tfile f) p \<in> set (lines (tfile f)) \<longrightarrow> f' = f) \<and>
           (Offset (tfile f) p \<notin> set (lines (tfile f)) \<longrightarrow>
              f' = f\<lparr>tfile := (tfile f)\<lparr>lines := insort (Offset (tfile f) p) (lines (tfile f))\<rparr>\<rparr>) \<and>
           validTable (tfile f') \<and> sorted_wrt (<) (lines (tfile f')) \<and> distinct (lines (tfile f')) \<and>
           (\<forall>q. validPos (tfile f) q \<longrightarrow>
              1 \<le> Line (tfile f') q \<and> Line (tfile f') q \<le> LineCount (tfile f'))"
proof -
  let ?F = "tfile f"
  have off: "Offset ?F p = p - base ?F" using assms(2,3) by (simp add: Offset_def)
  have srt: "sorted_wrt (<) (lines ?F)" using assms(1) by (simp add: validTable_def)
  have range: "\<forall>q. validPos ?F q \<longrightarrow> 1 \<le> Line G q \<and> Line G q \<le> LineCount G"
    if "validTable G" "base G = base ?F" "fsize G = fsize ?F" for G
  proof (intro allI impI)
    fix q assume q: "validPos ?F q"
    then have "0 \<le> Offset G q" by (simp add: Offset_def that validPos_def)
    moreover have "lines G \<noteq> []" "hd (lines G) = 0" using that(1) by (simp_all add: validTable_def)
    ultimately have "1 \<le> lineOfOffset (lines G) (Offset G q)" by (simp add: lineOfOffset_pos)
    then show "1 \<le> Line G q \<and> Line G q \<le> LineCount G"
      using q lineOfOffset_bounds [of "lines G" "Offset G q"]
      by (simp add: Line_def LineCount_def validPos_def)
  qed
  show ?thesis
  proof (cases "Offset ?F p \<in> set (lines ?F)")
    case True
    then have "addNewline f p = Inr f" using srt by (rule addNewline_existing [rotated])
    then show ?thesis
      using True assms(1) srt range [of ?F] strict_sorted_iff [of "lines ?F"] by auto
  next
    case False
    let ?G = "?F\<lparr>lines := insort (p - base ?F) (lines ?F)\<rparr>"
    have res: "addNewline f p = Inr (f\<lparr>tfile := ?G\<rparr>)"
      using False off by (intro addNewline_result assms) simp
    have srt': "sorted_wrt (<) (insort (p - base ?F) (lines ?F))"
      using srt False off by (intro sorted_wrt_insort) simp_all
    have "hd (insort (p - base ?F) (lines ?F)) = 0"
      using assms(1,2) by (cases "lines ?F") (auto simp: validTable_def)
    then have vt: "validTable ?G"
      using assms(1,3) srt' by (auto simp: validTable_def list_all_iff set_insort_key)
    show ?thesis
      using res False off vt srt' range [of ?G] strict_sorted_iff [of "lines ?G"] by auto
  qed
qed

theorem addNewline_keeps_line_table_witness:
  "validTable threeLines \<and>
   (\<exists>f'. addNewline (fumpterOf threeLines []) 16 = Inr f' \<and> lines (tfile f') = [0, 10, 15, 20]
      \<and> Line (tfile f') 16 = 3 \<and> Line (tfile f') 15 = 2)"
  using addNewline_keeps_line_table [of "fumpterOf threeLines []" 16]
  by (auto simp: validTable_def threeLines_def fumpterOf_def Offset_def Line_def lineOfOffset_def NoPos_def)

text \<open>At the end-of-file position, whose offset is the file size and never a line start,
  the table is rejected by \<open>SetLines\<close> and \<open>addNewline\<close> panics.\<close>

lemma addNewline_at_end_of_file:
  "addNewline (fumpterOf threeLines []) 31 = Inl (Panic ''could not set lines'')"
  by (simp add: addNewline_def threeLines_def fumpterOf_def Offset_def SetLines_def)


section \<open>C7: the inline comment query\<close>

text \<open>C7. When the comment list is sorted by position and every group is non-empty and
  sorted, with real positions, \<open>inlineComment\<close> looks at the first group at or after the
  position and returns that group's first token if the token's line is the position's
  line; otherwise it returns nothing. It never returns a later token of the group.\<close>

theorem inlineComment_first_token:
  assumes srt: "sorted (map groupPos (Comments f))"
    and grp: "\<forall>g\<in>set (Comments f). g \<noteq> [] \<and> sorted (map Slash g) \<and> (\<forall>c\<in>set g. Slash c \<noteq> NoPos)"
    and sz: "0 \<le> fsize (tfile f)"
  shows "inlineComment f pos =
      (case find (\<lambda>g. groupPos g \<ge> pos) (Comments f) of
         None \<Rightarrow> None
       | Some g \<Rightarrow>
           if Line (tfile f) (Slash (hd g)) = Line (tfile f) pos then Some (hd g) else None)"
proof -
  let ?cs = "Comments f"
  let ?rest = "dropWhile (\<lambda>g. groupPos g < pos) ?cs"
  have idx: "Search (length ?cs) (\<lambda>i. groupPos (?cs ! i) \<ge> pos) = length (takeWhile (\<lambda>g. groupPos g < pos) ?cs)"
    using srt by (rule Search_sorted_eq)
  have fnd: "find (\<lambda>g. groupPos g \<ge> pos) ?cs = (case ?rest of [] \<Rightarrow> None | g # _ \<Rightarrow> Some g)"
    by (simp add: find_dropWhile not_le)
  show ?thesis
  proof (cases ?rest)
    case Nil
    then have "length (takeWhile (\<lambda>g. groupPos g < pos) ?cs) = length ?cs"
      by (metis append_Nil2 takeWhile_dropWhile_id)
    moreover have "find (\<lambda>g. groupPos g \<ge> pos) ?cs = None"
      by (simp only: fnd Nil list.case)
    ultimately show ?thesis by (simp add: inlineComment_def idx)
  next
    case (Cons g gs)
    let ?i = "length (takeWhile (\<lambda>g. groupPos g < pos) ?cs)"
    have fnd': "find (\<lambda>g. groupPos g \<ge> pos) ?cs = Some g"
      by (simp only: fnd Cons list.case)
    have split: "?cs = takeWhile (\<lambda>g. groupPos g < pos) ?cs @ g # gs"
      using Cons by (metis takeWhile_dropWhile_id)
    then have lt: "?i < length ?cs" and nth: "?cs ! ?i = g"
      by (metis length_append length_Cons less_add_Suc1 add_Suc_right, metis nth_append_length)
    have gin: "g \<in> set ?cs" using nth lt by (metis nth_mem)
    have ge: "pos \<le> groupPos g" using Cons by (metis dropWhile_eq_Cons_conv not_le)
    from grp gin obtain c cs where g: "g = c # cs" and gs: "sorted (map Slash g)"
      and nz: "\<forall>c\<in>set g. Slash c \<noteq> NoPos"
      by (cases g) auto
    have first: "pos \<le> Slash c" using ge g by (simp add: groupPos_def)
    have res: "inlineComment f pos = find (\<lambda>comment. Line (tfile f) (Slash comment) = Line (tfile f) pos) g"
      using lt nth by (simp add: inlineComment_def idx Let_def)
    show ?thesis
    proof (cases "Line (tfile f) (Slash c) = Line (tfile f) pos")
      case True
      then show ?thesis using res g by (simp add: fnd')
    next
      case False
      have "Line (tfile f) pos \<le> Line (tfile f) (Slash c)"
        using first nz g sz by (intro Line_mono) simp_all
      with False have strict: "Line (tfile f) pos < Line (tfile f) (Slash c)" by simp
      have "\<not> (\<exists>c'\<in>set g. Line (tfile f) (Slash c') = Line (tfile f) pos)"
      proof
        assume "\<exists>c'\<in>set g. Line (tfile f) (Slash c') = Line (tfile f) pos"
        then obtain c' where c': "c' \<in> set g" "Line (tfile f) (Slash c') = Line (tfile f) pos" by blast
        have "Slash c \<le> Slash c'" using gs c'(1) g by auto
        then have "Line (tfile f) (Slash c) \<le> Line (tfile f) (Slash c')"
          using nz c'(1) sz by (intro Line_mono) simp_all
        with strict c'(2) show False by simp
      qed
      then have "find (\<lambda>comment. Line (tfile f) (Slash comment) = Line (tfile f) pos) g = None"
        by (simp add: find_None_iff)
      then show ?thesis using res g False by (simp add: fnd')
    qed
  qed
qed

theorem inlineComment_first_token_witness:
  "sorted (map groupPos twoComments) \<and>
   inlineComment (fumpterOf threeLines twoComments) 11 = Some \<lparr>Slash = 12, Text = ''// a''\<rparr> \<and>
   inlineComment (fumpterOf threeLines twoComments) 15 = None"
  using inlineComment_first_token [of "fumpterOf threeLines twoComments" 11]
    inlineComment_first_token [of "fumpterOf threeLines twoComments" 15]
  by (simp add: fumpterOf_def threeLines_def twoComments_def groupPos_def NoPos_def Line_def
      lineOfOffset_def Offset_def)

end
